theory Spec2Isabelle
  imports Main "HOL-Library.Word"
begin

unbundle bit_operations_syntax

section \<open>JavaScript values\<close>

text \<open>
  The webhook handler works on whatever \<^verbatim>\<open>JSON.parse\<close> delivers, so request bodies are
  JavaScript values: the JSON values plus \<^verbatim>\<open>undefined\<close>, which property reads produce.
  Strings are their UTF-8 bytes; numbers are the integers (only their truthiness is read).
  An object is its list of own properties, keys distinct as \<^verbatim>\<open>JSON.parse\<close> leaves them.
\<close>

datatype jsval =
    Undefined
  | Null
  | Bool bool
  | Num int
  | Str string
  | Arr "jsval list"
  | Obj "(string \<times> jsval) list"

datatype js_error = TypeError | RangeError | Thrown string

fun truthy :: "jsval \<Rightarrow> bool" where
  "truthy Undefined = False"
| "truthy Null = False"
| "truthy (Bool b) = b"
| "truthy (Num n) = (n \<noteq> 0)"
| "truthy (Str s) = (s \<noteq> [])"
| "truthy (Arr xs) = True"
| "truthy (Obj kvs) = True"

text \<open>\<^verbatim>\<open>a || b\<close>\<close>

definition js_or :: "jsval \<Rightarrow> jsval \<Rightarrow> jsval" where
  "js_or a b = (if truthy a then a else b)"

fun nullish :: "jsval \<Rightarrow> bool" where
  "nullish Undefined = True"
| "nullish Null = True"
| "nullish v = False"

text \<open>
  \<^verbatim>\<open>s.length\<close> counts UTF-16 code units: one for each code point (each byte that is not a
  continuation byte), and one more for each code point beyond the basic plane (each
  lead byte of a four-byte sequence).
\<close>

definition utf16_length :: "string \<Rightarrow> nat" where
  "utf16_length s =
     length (filter (\<lambda>c. \<not> (128 \<le> (of_char c :: nat) \<and> (of_char c :: nat) < 192)) s)
     + length (filter (\<lambda>c. 240 \<le> (of_char c :: nat)) s)"

text \<open>
  \<^verbatim>\<open>v.k\<close> on a value that is neither \<^verbatim>\<open>null\<close> nor \<^verbatim>\<open>undefined\<close>, for the property names
  the handler reads (\<^verbatim>\<open>length\<close> is the only one of them that strings and arrays carry).
\<close>

fun own_prop :: "jsval \<Rightarrow> string \<Rightarrow> jsval" where
  "own_prop (Obj kvs) k = (case map_of kvs k of None \<Rightarrow> Undefined | Some v \<Rightarrow> v)"
| "own_prop (Arr xs) k = (if k = ''length'' then Num (int (length xs)) else Undefined)"
| "own_prop (Str s) k = (if k = ''length'' then Num (int (utf16_length s)) else Undefined)"
| "own_prop v k = Undefined"

text \<open>\<^verbatim>\<open>v.k\<close>: reading a property of \<^verbatim>\<open>null\<close> or \<^verbatim>\<open>undefined\<close> throws a TypeError.\<close>

definition get_prop :: "jsval \<Rightarrow> string \<Rightarrow> js_error + jsval" where
  "get_prop v k = (if nullish v then Inl TypeError else Inr (own_prop v k))"

text \<open>\<^verbatim>\<open>v?.k\<close>\<close>

definition opt_prop :: "jsval \<Rightarrow> string \<Rightarrow> jsval" where
  "opt_prop v k = (if nullish v then Undefined else own_prop v k)"

text \<open>
  \<^verbatim>\<open>String.prototype.replace(pat, rep)\<close> with a string pattern: the first occurrence of
  \<^verbatim>\<open>pat\<close>, wherever it stands, is replaced.
\<close>

fun replace_first :: "string \<Rightarrow> string \<Rightarrow> string \<Rightarrow> string" where
  "replace_first pat rep [] = (if pat = [] then rep else [])"
| "replace_first pat rep (c # cs) =
     (if take (length pat) (c # cs) = pat then rep @ drop (length pat) (c # cs)
      else c # replace_first pat rep cs)"

text \<open>
  \<^verbatim>\<open>ref.replace('refs/heads/', '')\<close>: only a string has the method; on any other value
  that passed \<^verbatim>\<open>body.ref || ''\<close> the call is a TypeError (\<^verbatim>\<open>replace\<close> is not a function).
\<close>

definition js_replace :: "jsval \<Rightarrow> string \<Rightarrow> string \<Rightarrow> js_error + string" where
  "js_replace v pat rep = (case v of Str s \<Rightarrow> Inr (replace_first pat rep s) | _ \<Rightarrow> Inl TypeError)"

section \<open>Signature verification (webhook.js)\<close>

text \<open>
  A header value or a configured secret is a string or absent; \<^verbatim>\<open>!x\<close> holds for an
  absent and for an empty one.
\<close>

fun falsy :: "string option \<Rightarrow> bool" where
  "falsy None = True"
| "falsy (Some s) = (s = [])"

text \<open>
  \<^verbatim>\<open>crypto.timingSafeEqual\<close> throws a RangeError on buffers of different byte length.
  \<^verbatim>\<open>Buffer.from\<close> of a byte string is that string.
\<close>

definition timingSafeEqual :: "string \<Rightarrow> string \<Rightarrow> js_error + bool" where
  "timingSafeEqual a b = (if length a \<noteq> length b then Inl RangeError else Inr (a = b))"

definition hexdigit :: "nat \<Rightarrow> char" where
  "hexdigit n = ''0123456789abcdef'' ! n"

definition hex_byte :: "8 word \<Rightarrow> string" where
  "hex_byte b = [hexdigit (unat b div 16), hexdigit (unat b mod 16)]"

text \<open>\<^verbatim>\<open>digest('hex')\<close>: two lower-case hexadecimal digits per byte.\<close>

definition hex :: "8 word list \<Rightarrow> string" where
  "hex bs = concat (map hex_byte bs)"

text \<open>
  \<^verbatim>\<open>verifyGitHubSignature(payload, signature, secret)\<close>. The keyed hash of Node's crypto
  library is the parameter \<open>hmac\<close> (key, message, raw digest bytes). The result is the
  value the function returns, or the exception that leaves it.
\<close>

definition verifyGitHubSignature ::
  "(string \<Rightarrow> string \<Rightarrow> 8 word list) \<Rightarrow> string \<Rightarrow> string option \<Rightarrow> string option
     \<Rightarrow> js_error + bool" where
  "verifyGitHubSignature hmac payload signature secret =
     (if falsy signature \<or> falsy secret then Inr (falsy secret)
      else
        (case (signature, secret) of
           (Some sg, Some sec) \<Rightarrow>
             (let expected = ''sha256='' @ hex (hmac sec payload) in
              (case timingSafeEqual sg expected of
                 Inr b \<Rightarrow> Inr b
               | Inl e \<Rightarrow> Inr False))
         | _ \<Rightarrow> Inr (falsy secret)))"

definition verifyGitLabToken :: "string option \<Rightarrow> string option \<Rightarrow> bool" where
  "verifyGitLabToken token secret = (if falsy secret then True else token = secret)"

definition verifyGiteaSignature ::
  "(string \<Rightarrow> string \<Rightarrow> 8 word list) \<Rightarrow> string \<Rightarrow> string option \<Rightarrow> string option
     \<Rightarrow> js_error + bool" where
  "verifyGiteaSignature = verifyGitHubSignature"

text \<open>
  The specification's single bit flip in the raw digest: bit \<open>i mod 8\<close> of byte
  \<open>i div 8\<close> is inverted.
\<close>

definition flip_single_bit :: "nat \<Rightarrow> 8 word list \<Rightarrow> 8 word list" where
  "flip_single_bit i bs = bs[i div 8 := (bs ! (i div 8)) XOR push_bit (i mod 8) 1]"

section \<open>Trigger normalisation (webhook.js)\<close>

record trigger =
  provider :: string
  event :: string
  branch :: string
  repository :: jsval
  fullName :: jsval
  commits :: jsval
  pusher :: jsval
  headCommit :: jsval

text \<open>
  Each parser reads \<^verbatim>\<open>body.ref\<close> first, which throws on a \<^verbatim>\<open>null\<close> body; the reads that
  follow are on a body that is not \<^verbatim>\<open>null\<close>.
\<close>

definition parseGitHubPush :: "jsval \<Rightarrow> js_error + trigger" where
  "parseGitHubPush body =
     (case get_prop body ''ref'' of
        Inl e \<Rightarrow> Inl e
      | Inr r \<Rightarrow>
          (case js_replace (js_or r (Str [])) ''refs/heads/'' [] of
             Inl e \<Rightarrow> Inl e
           | Inr br \<Rightarrow>
               Inr \<lparr> provider = ''github'', event = ''push'', branch = br,
                     repository = js_or (opt_prop (own_prop body ''repository'') ''name'') Null,
                     fullName = js_or (opt_prop (own_prop body ''repository'') ''full_name'') Null,
                     commits = js_or (opt_prop (own_prop body ''commits'') ''length'') (Num 0),
                     pusher = js_or (opt_prop (own_prop body ''pusher'') ''name'') Null,
                     headCommit = js_or (opt_prop (own_prop body ''head_commit'') ''id'') Null \<rparr>))"

definition parseGitLabPush :: "jsval \<Rightarrow> js_error + trigger" where
  "parseGitLabPush body =
     (case get_prop body ''ref'' of
        Inl e \<Rightarrow> Inl e
      | Inr r \<Rightarrow>
          (case js_replace (js_or r (Str [])) ''refs/heads/'' [] of
             Inl e \<Rightarrow> Inl e
           | Inr br \<Rightarrow>
               Inr \<lparr> provider = ''gitlab'', event = ''push'', branch = br,
                     repository = js_or (opt_prop (own_prop body ''project'') ''name'')
                                    (js_or (opt_prop (own_prop body ''repository'') ''name'') Null),
                     fullName = js_or (opt_prop (own_prop body ''project'') ''path_with_namespace'') Null,
                     commits = js_or (own_prop body ''total_commits_count'')
                                 (js_or (opt_prop (own_prop body ''commits'') ''length'') (Num 0)),
                     pusher = js_or (own_prop body ''user_name'') Null,
                     headCommit = js_or (own_prop body ''checkout_sha'')
                                    (js_or (own_prop body ''after'') Null) \<rparr>))"

definition parseGiteaPush :: "jsval \<Rightarrow> js_error + trigger" where
  "parseGiteaPush body =
     (case get_prop body ''ref'' of
        Inl e \<Rightarrow> Inl e
      | Inr r \<Rightarrow>
          (case js_replace (js_or r (Str [])) ''refs/heads/'' [] of
             Inl e \<Rightarrow> Inl e
           | Inr br \<Rightarrow>
               Inr \<lparr> provider = ''gitea'', event = ''push'', branch = br,
                     repository = js_or (opt_prop (own_prop body ''repository'') ''name'') Null,
                     fullName = js_or (opt_prop (own_prop body ''repository'') ''full_name'') Null,
                     commits = js_or (opt_prop (own_prop body ''commits'') ''length'') (Num 0),
                     pusher = js_or (opt_prop (own_prop body ''pusher'') ''login'')
                                (js_or (opt_prop (own_prop body ''pusher'') ''username'') Null),
                     headCommit = js_or (own_prop body ''after'') Null \<rparr>))"

section \<open>Configuration (configLoader.js, pathUtils.js)\<close>

record task_server_config =
  url :: string
  apiKey :: "string option"

record deps =
  dep_type :: "string option"
  venv :: "string option"

text \<open>An entry of \<^verbatim>\<open>registerScripts\<close>: its name, and the other fields as sent to TaskServer.\<close>

record script_config =
  script_name :: string
  script_fields :: jsval

text \<open>
  The shapes the \<^verbatim>\<open>build\<close> key can take. An item of a command list is \<^verbatim>\<open>null\<close>, a string,
  an object (with its \<^verbatim>\<open>command\<close> and \<^verbatim>\<open>cwd\<close> strings, if present) or any other value.
\<close>

datatype build_item =
    ItemNull
  | ItemString string
  | ItemObject "string option" "string option"
  | ItemOther

datatype build_spec =
    BuildAbsent
  | BuildString string
  | BuildObject "string option" "string option" "build_item list option"
  | BuildArray "build_item list"
  | BuildOther

record build_cmd =
  command :: string
  cwd :: "string option"

record repo_config =
  name :: string
  path :: string
  repo_branch :: string
  repoUrl :: "string option"
  dependencies :: "deps option"
  build :: build_spec
  restartScripts :: "string list option"
  registerScripts :: "script_config list option"
  repo_taskServer :: "task_server_config option"

record config =
  webhook_secret :: "string option"
  polling_interval :: "nat option"
  repos :: "repo_config list"
  taskServer :: task_server_config

definition getTaskServerConfig :: "config \<Rightarrow> repo_config \<Rightarrow> task_server_config" where
  "getTaskServerConfig cfg repo =
     (case repo_taskServer repo of Some ts \<Rightarrow> ts | None \<Rightarrow> taskServer cfg)"

text \<open>
  The operating system as \<^verbatim>\<open>expandPath\<close> and \<^verbatim>\<open>deploy\<close> see it: \<^verbatim>\<open>os.homedir()\<close> and
  \<^verbatim>\<open>path.join\<close> of Node's library.
\<close>

record os_env =
  homedir :: string
  path_join :: "string \<Rightarrow> string \<Rightarrow> string"

definition expandPath :: "os_env \<Rightarrow> string \<Rightarrow> string" where
  "expandPath os p =
     (if p = [] then p
      else if take 2 p = ''~/'' then path_join os (homedir os) (drop 2 p)
      else if p = ''~'' then homedir os
      else p)"

section \<open>Build commands (deployer.js)\<close>

text \<open>
  \<^verbatim>\<open>normalize\<close> of \<^verbatim>\<open>getBuildCommands\<close>: \<^verbatim>\<open>typeof null\<close> is \<^verbatim>\<open>'object'\<close>, so a \<^verbatim>\<open>null\<close> item
  reaches \<^verbatim>\<open>item.command\<close> and throws. The result \<open>None\<close> is the \<^verbatim>\<open>null\<close> that
  \<^verbatim>\<open>filter(Boolean)\<close> removes.
\<close>

fun normalize :: "build_item \<Rightarrow> js_error + build_cmd option" where
  "normalize (ItemString s) = Inr (Some \<lparr> command = s, cwd = None \<rparr>)"
| "normalize ItemNull = Inl TypeError"
| "normalize (ItemObject c d) =
     (if \<not> falsy c
      then Inr (Some \<lparr> command = (case c of Some s \<Rightarrow> s | None \<Rightarrow> []),
                        cwd = (if falsy d then None else d) \<rparr>)
      else Inr None)"
| "normalize ItemOther = Inr None"

text \<open>\<^verbatim>\<open>items.map(normalize).filter(Boolean)\<close>\<close>

fun normalize_all :: "build_item list \<Rightarrow> js_error + build_cmd list" where
  "normalize_all [] = Inr []"
| "normalize_all (i # is) =
     (case normalize i of
        Inl e \<Rightarrow> Inl e
      | Inr r \<Rightarrow>
          (case normalize_all is of
             Inl e \<Rightarrow> Inl e
           | Inr cs \<Rightarrow> Inr ((case r of Some c \<Rightarrow> [c] | None \<Rightarrow> []) @ cs)))"

definition getBuildCommands :: "repo_config \<Rightarrow> js_error + build_cmd list" where
  "getBuildCommands repoConfig =
     (case build repoConfig of
        BuildAbsent \<Rightarrow> Inr []
      | BuildString s \<Rightarrow> (if s = [] then Inr [] else Inr [\<lparr> command = s, cwd = None \<rparr>])
      | BuildObject c d cs \<Rightarrow>
          (if \<not> falsy c
           then Inr [\<lparr> command = (case c of Some s \<Rightarrow> s | None \<Rightarrow> []),
                       cwd = (if falsy d then None else d) \<rparr>]
           else (case cs of Some items \<Rightarrow> normalize_all items | None \<Rightarrow> Inr []))
      | BuildArray items \<Rightarrow> normalize_all items
      | BuildOther \<Rightarrow> Inr [])"

text \<open>The working directory of one build command (the head of the build loop's body).\<close>

definition resolveWorkDir :: "os_env \<Rightarrow> repo_config \<Rightarrow> build_cmd \<Rightarrow> string" where
  "resolveWorkDir os repoConfig buildCmd =
     (let workDir = expandPath os (path repoConfig) in
      (case cwd buildCmd of
         None \<Rightarrow> workDir
       | Some d \<Rightarrow>
           if d = [] then workDir
           else if take 1 d = ''/'' then expandPath os d
           else path_join os workDir d))"

section \<open>The deployment pipeline (deployer.js)\<close>

text \<open>
  What the collaborators hand back to \<^verbatim>\<open>deploy\<close>. A field that a collaborator leaves out
  (\<^verbatim>\<open>cloned\<close>, \<^verbatim>\<open>skipped\<close>) reads as \<^verbatim>\<open>undefined\<close>, which is \<open>False\<close> here.
\<close>

record ensure_result =
  ensure_success :: bool
  ensure_cloned :: bool
  ensure_error :: "string option"

record pull_result =
  pull_success :: bool
  pull_changed :: bool
  pull_message :: string
  pull_files :: "string list"

record install_result =
  install_success :: bool
  install_skipped :: bool
  install_error :: "string option"

record api_result =
  api_success :: bool
  api_error :: "string option"

text \<open>\<^verbatim>\<open>execAsync\<close> resolves with the output or rejects with an error.\<close>

datatype exec_result = ExecOk string string | ExecFailed string

record build_result =
  b_command :: string
  b_cwd :: "string option"
  b_success :: bool
  b_error :: "string option"

text \<open>The entries of \<^verbatim>\<open>results.steps\<close>, one constructor for each object the code pushes.\<close>

datatype step_result =
    EnsureRepoStep ensure_result
  | GitPullStep pull_result
  | InstallDepsStep install_result
  | InstallDepsSkipped
  | BuildStep "build_result list"
  | BuildSkipped
  | RegisterScriptsStep "(string \<times> api_result) list"
  | RestartScriptsStep "(string \<times> api_result) list"
  | RestartScriptsSkipped

text \<open>The calls \<^verbatim>\<open>deploy\<close> makes to the outside, in the order it makes them.\<close>

datatype call =
    EnsureRepoCall string string string
  | GitPullCall string string
  | InstallDependenciesCall string deps
  | StopScriptCall string task_server_config
  | ExecCall string string
  | AddScriptCall script_config task_server_config
  | RestartScriptCall string task_server_config

text \<open>
  The outside world: what each collaborator answers, given the calls made so far and
  its arguments. \<^verbatim>\<open>gitPull\<close> builds its simple-git handle outside its \<^verbatim>\<open>try\<close> block, and
  \<^verbatim>\<open>stopScript\<close> and \<^verbatim>\<open>restartScript\<close> build their endpoint with \<^verbatim>\<open>encodeURIComponent\<close>
  outside theirs (it throws on a name that is not well-formed), so these three can also
  reject. The others catch whatever happens inside them.
\<close>

record world =
  ensureRepo_io :: "call list \<Rightarrow> string \<Rightarrow> string \<Rightarrow> string \<Rightarrow> ensure_result"
  gitPull_io :: "call list \<Rightarrow> string \<Rightarrow> string \<Rightarrow> js_error + pull_result"
  installDependencies_io :: "call list \<Rightarrow> string \<Rightarrow> deps \<Rightarrow> install_result"
  stopScript_io :: "call list \<Rightarrow> string \<Rightarrow> task_server_config \<Rightarrow> js_error + api_result"
  execAsync_io :: "call list \<Rightarrow> string \<Rightarrow> string \<Rightarrow> exec_result"
  addScript_io :: "call list \<Rightarrow> script_config \<Rightarrow> task_server_config \<Rightarrow> api_result"
  restartScript_io :: "call list \<Rightarrow> string \<Rightarrow> task_server_config \<Rightarrow> js_error + api_result"

text \<open>
  The \<^verbatim>\<open>results\<close> object of \<^verbatim>\<open>deploy\<close> (without the wall-clock \<^verbatim>\<open>duration\<close>), and with it
  the trace of the calls made.
\<close>

record deploy_result =
  repo :: string
  success :: bool
  steps :: "step_result list"
  error :: "string option"
  skipped :: bool
  deploy_trigger :: "trigger option"

record dstate = deploy_result +
  calls :: "call list"

definition push_step :: "step_result \<Rightarrow> dstate \<Rightarrow> dstate" where
  "push_step s st = st\<lparr> steps := steps st @ [s] \<rparr>"

definition push_call :: "call \<Rightarrow> dstate \<Rightarrow> dstate" where
  "push_call c st = st\<lparr> calls := calls st @ [c] \<rparr>"

definition fail_with :: "string \<Rightarrow> dstate \<Rightarrow> dstate" where
  "fail_with msg st = st\<lparr> success := False, error := Some msg \<rparr>"

text \<open>\<^verbatim>\<open>xs && xs.length > 0\<close>\<close>

fun nonempty :: "'a list option \<Rightarrow> bool" where
  "nonempty None = False"
| "nonempty (Some xs) = (xs \<noteq> [])"

fun items :: "'a list option \<Rightarrow> 'a list" where
  "items None = []"
| "items (Some xs) = xs"

text \<open>\<^verbatim>\<open>results.steps.find(s => s.step === 'ensure-repo')?.cloned\<close>\<close>

fun is_ensure_step :: "step_result \<Rightarrow> bool" where
  "is_ensure_step (EnsureRepoStep r) = True"
| "is_ensure_step s = False"

definition wasCloned :: "step_result list \<Rightarrow> bool" where
  "wasCloned ss =
     (case List.find is_ensure_step ss of
        Some (EnsureRepoStep r) \<Rightarrow> ensure_cloned r
      | _ \<Rightarrow> False)"

text \<open>Step 5, the loop over \<^verbatim>\<open>restartScripts\<close>.\<close>

fun restart_loop ::
  "world \<Rightarrow> task_server_config \<Rightarrow> string list \<Rightarrow> (string \<times> api_result) list \<Rightarrow> call list
     \<Rightarrow> js_error + (string \<times> api_result) list \<times> call list" where
  "restart_loop w ts [] acc log = Inr (acc, log)"
| "restart_loop w ts (scriptName # rest) acc log =
     (case restartScript_io w log scriptName ts of
        Inl e \<Rightarrow> Inl e
      | Inr restartResult \<Rightarrow>
          restart_loop w ts rest (acc @ [(scriptName, restartResult)])
            (log @ [RestartScriptCall scriptName ts]))"

text \<open>Step 4, the loop over \<^verbatim>\<open>registerScripts\<close>.\<close>

fun register_loop ::
  "world \<Rightarrow> task_server_config \<Rightarrow> script_config list \<Rightarrow> (string \<times> api_result) list \<Rightarrow> call list
     \<Rightarrow> (string \<times> api_result) list \<times> call list" where
  "register_loop w ts [] acc log = (acc, log)"
| "register_loop w ts (scriptConfig # rest) acc log =
     (let addResult = addScript_io w log scriptConfig ts
      in register_loop w ts rest (acc @ [(script_name scriptConfig, addResult)])
           (log @ [AddScriptCall scriptConfig ts]))"

text \<open>Step 2.5, the loop over \<^verbatim>\<open>restartScripts\<close>; the answers of \<^verbatim>\<open>stopScript\<close> are dropped.\<close>

fun stop_loop ::
  "world \<Rightarrow> task_server_config \<Rightarrow> string list \<Rightarrow> call list \<Rightarrow> js_error + call list" where
  "stop_loop w ts [] log = Inr log"
| "stop_loop w ts (scriptName # rest) log =
     (case stopScript_io w log scriptName ts of
        Inl e \<Rightarrow> Inl e
      | Inr stopResult \<Rightarrow> stop_loop w ts rest (log @ [StopScriptCall scriptName ts]))"

text \<open>
  Step 3, the loop over the build commands. It ends with the results, the trace and,
  when a command failed, that command and the error message: the \<^verbatim>\<open>catch\<close> branch returns
  from \<^verbatim>\<open>deploy\<close>.
\<close>

fun build_loop ::
  "world \<Rightarrow> os_env \<Rightarrow> repo_config \<Rightarrow> build_cmd list \<Rightarrow> build_result list \<Rightarrow> call list
     \<Rightarrow> build_result list \<times> call list \<times> (string \<times> string) option" where
  "build_loop w os repoConfig [] acc log = (acc, log, None)"
| "build_loop w os repoConfig (buildCmd # rest) acc log =
     (let workDir = resolveWorkDir os repoConfig buildCmd
      in (case execAsync_io w log (command buildCmd) workDir of
            ExecOk out err \<Rightarrow>
              build_loop w os repoConfig rest
                (acc @ [\<lparr> b_command = command buildCmd, b_cwd = cwd buildCmd,
                           b_success = True, b_error = None \<rparr>])
                (log @ [ExecCall (command buildCmd) workDir])
          | ExecFailed msg \<Rightarrow>
              (acc @ [\<lparr> b_command = command buildCmd, b_cwd = cwd buildCmd,
                         b_success = False, b_error = Some msg \<rparr>],
               log @ [ExecCall (command buildCmd) workDir],
               Some (command buildCmd, msg))))"

text \<open>Step 5: restart scripts.\<close>

definition deploy_restart ::
  "world \<Rightarrow> task_server_config \<Rightarrow> repo_config \<Rightarrow> dstate \<Rightarrow> js_error + dstate" where
  "deploy_restart w ts repoConfig st =
     (if nonempty (restartScripts repoConfig)
      then (case restart_loop w ts (items (restartScripts repoConfig)) [] (calls st) of
              Inl e \<Rightarrow> Inl e
            | Inr (restartResults, log) \<Rightarrow>
                Inr (push_step (RestartScriptsStep restartResults) (st\<lparr> calls := log \<rparr>)))
      else Inr (push_step RestartScriptsSkipped st))"

text \<open>Step 4: register scripts, on a fresh clone only.\<close>

definition deploy_register ::
  "world \<Rightarrow> task_server_config \<Rightarrow> repo_config \<Rightarrow> bool \<Rightarrow> dstate \<Rightarrow> dstate" where
  "deploy_register w ts repoConfig cloned st =
     (if cloned \<and> nonempty (registerScripts repoConfig)
      then (case register_loop w ts (items (registerScripts repoConfig)) [] (calls st) of
              (registerResults, log) \<Rightarrow>
                push_step (RegisterScriptsStep registerResults) (st\<lparr> calls := log \<rparr>))
      else st)"

text \<open>Step 3: run the build commands, then steps 4 and 5 unless a command failed.\<close>

definition deploy_build ::
  "world \<Rightarrow> os_env \<Rightarrow> task_server_config \<Rightarrow> repo_config \<Rightarrow> bool \<Rightarrow> build_cmd list \<Rightarrow> dstate
     \<Rightarrow> js_error + dstate" where
  "deploy_build w os ts repoConfig cloned buildCommands st =
     (if buildCommands \<noteq> []
      then (case build_loop w os repoConfig buildCommands [] (calls st) of
              (buildResults, log, Some (cmd, msg)) \<Rightarrow>
                Inr (push_step (BuildStep buildResults)
                       (fail_with (''Build failed: '' @ cmd @ '' - '' @ msg)
                          (st\<lparr> calls := log \<rparr>)))
            | (buildResults, log, None) \<Rightarrow>
                deploy_restart w ts repoConfig
                  (deploy_register w ts repoConfig cloned
                     (push_step (BuildStep buildResults) (st\<lparr> calls := log \<rparr>))))
      else deploy_restart w ts repoConfig
             (deploy_register w ts repoConfig cloned (push_step BuildSkipped st)))"

text \<open>Step 2.5: stop the scripts before a build.\<close>

definition deploy_stop ::
  "world \<Rightarrow> task_server_config \<Rightarrow> repo_config \<Rightarrow> build_cmd list \<Rightarrow> dstate
     \<Rightarrow> js_error + dstate" where
  "deploy_stop w ts repoConfig buildCommands st =
     (if nonempty (restartScripts repoConfig) \<and> buildCommands \<noteq> []
      then (case stop_loop w ts (items (restartScripts repoConfig)) (calls st) of
              Inl e \<Rightarrow> Inl e
            | Inr log \<Rightarrow> Inr (st\<lparr> calls := log \<rparr>))
      else Inr st)"

text \<open>
  From the task server configuration on: \<^verbatim>\<open>getBuildCommands\<close> may throw, which rejects
  the promise of \<^verbatim>\<open>deploy\<close>, and so does a rejection in step 2.5 or step 5.
\<close>

definition deploy_from_stop ::
  "world \<Rightarrow> os_env \<Rightarrow> config \<Rightarrow> repo_config \<Rightarrow> bool \<Rightarrow> dstate \<Rightarrow> js_error + dstate" where
  "deploy_from_stop w os cfg repoConfig cloned st =
     (let taskServerConfig = getTaskServerConfig cfg repoConfig
      in (case getBuildCommands repoConfig of
            Inl e \<Rightarrow> Inl e
          | Inr buildCommands \<Rightarrow>
              (case deploy_stop w taskServerConfig repoConfig buildCommands st of
                 Inl e \<Rightarrow> Inl e
               | Inr st' \<Rightarrow>
                   deploy_build w os taskServerConfig repoConfig cloned buildCommands st')))"

definition show_error :: "string option \<Rightarrow> string" where
  "show_error e = (case e of Some m \<Rightarrow> m | None \<Rightarrow> ''undefined'')"

text \<open>Step 2: install dependencies.\<close>

definition deploy_from_install ::
  "world \<Rightarrow> os_env \<Rightarrow> config \<Rightarrow> repo_config \<Rightarrow> bool \<Rightarrow> dstate \<Rightarrow> js_error + dstate" where
  "deploy_from_install w os cfg repoConfig cloned st =
     (case dependencies repoConfig of
        Some d \<Rightarrow>
          if dep_type d \<noteq> Some ''none''
          then (let installResult = installDependencies_io w (calls st) (path repoConfig) d;
                    st' = push_step (InstallDepsStep installResult)
                            (push_call (InstallDependenciesCall (path repoConfig) d) st)
                in if \<not> install_success installResult \<and> \<not> install_skipped installResult
                   then Inr (fail_with (''Dependency installation failed: ''
                                          @ show_error (install_error installResult)) st')
                   else deploy_from_stop w os cfg repoConfig cloned st')
          else deploy_from_stop w os cfg repoConfig cloned (push_step InstallDepsSkipped st)
      | None \<Rightarrow> deploy_from_stop w os cfg repoConfig cloned (push_step InstallDepsSkipped st))"

text \<open>Step 1: git pull, and the check whether the rest can be skipped.\<close>

definition deploy_from_pull ::
  "world \<Rightarrow> os_env \<Rightarrow> config \<Rightarrow> repo_config \<Rightarrow> dstate \<Rightarrow> js_error + dstate" where
  "deploy_from_pull w os cfg repoConfig st =
     (case gitPull_io w (calls st) (path repoConfig) (repo_branch repoConfig) of
        Inl e \<Rightarrow> Inl e
      | Inr pullResult \<Rightarrow>
          (let st' = push_step (GitPullStep pullResult)
                       (push_call (GitPullCall (path repoConfig) (repo_branch repoConfig)) st)
           in if \<not> pull_success pullResult
              then Inr (fail_with (''Git pull failed: '' @ pull_message pullResult) st')
              else (let cloned = wasCloned (steps st')
                    in if \<not> pull_changed pullResult \<and> \<not> cloned
                       then Inr (st'\<lparr> skipped := True \<rparr>)
                       else deploy_from_install w os cfg repoConfig cloned st')))"

text \<open>\<^verbatim>\<open>deploy(config, repoConfig, triggerInfo)\<close>, from step 0.\<close>

definition deploy ::
  "world \<Rightarrow> os_env \<Rightarrow> config \<Rightarrow> repo_config \<Rightarrow> trigger option \<Rightarrow> js_error + dstate" where
  "deploy w os cfg repoConfig triggerInfo =
     (let results = \<lparr> repo = name repoConfig, success = True, steps = [], error = None,
                       skipped = False, deploy_trigger = triggerInfo, calls = [] \<rparr>
      in (case repoUrl repoConfig of
            Some u \<Rightarrow>
              if u \<noteq> []
              then (let ensureResult =
                          ensureRepo_io w (calls results) (path repoConfig) u (repo_branch repoConfig);
                        st = push_step (EnsureRepoStep ensureResult)
                               (push_call (EnsureRepoCall (path repoConfig) u (repo_branch repoConfig))
                                  results)
                    in if \<not> ensure_success ensureResult
                       then Inr (fail_with (''Failed to ensure repo: ''
                                              @ show_error (ensure_error ensureResult)) st)
                       else deploy_from_pull w os cfg repoConfig st)
              else deploy_from_pull w os cfg repoConfig results
          | None \<Rightarrow> deploy_from_pull w os cfg repoConfig results))"

section \<open>The webhook handler (webhook.js)\<close>

record request =
  req_method :: string
  pathname :: string
  headers :: "string \<Rightarrow> string option"
  rawBody :: string

datatype response_body =
    HealthBody
  | ErrorBody string
  | MessageBody string
  | TriggeredBody string string

record response =
  status :: nat
  body :: response_body

text \<open>\<^verbatim>\<open>isPush || body.ref\<close>, as the condition of an \<^verbatim>\<open>if\<close>.\<close>

definition push_or_ref :: "bool \<Rightarrow> jsval \<Rightarrow> js_error + bool" where
  "push_or_ref isPush b =
     (if isPush then Inr True
      else (case get_prop b ''ref'' of Inl e \<Rightarrow> Inl e | Inr r \<Rightarrow> Inr (truthy r)))"

text \<open>\<^verbatim>\<open>if (cond) pushInfo = parse(body)\<close>\<close>

definition parse_when ::
  "js_error + bool \<Rightarrow> (jsval \<Rightarrow> js_error + trigger) \<Rightarrow> jsval \<Rightarrow> js_error + trigger option" where
  "parse_when cond parse b =
     (case cond of
        Inl e \<Rightarrow> Inl e
      | Inr False \<Rightarrow> Inr None
      | Inr True \<Rightarrow> (case parse b of Inl e \<Rightarrow> Inl e | Inr p \<Rightarrow> Inr (Some p)))"

text \<open>
  The provider detection of the handler: it yields \<^verbatim>\<open>isValid\<close> and \<^verbatim>\<open>pushInfo\<close>
  (\<open>None\<close> while it is unset).
\<close>

definition detect_provider ::
  "(string \<Rightarrow> string \<Rightarrow> 8 word list) \<Rightarrow> string option \<Rightarrow> request \<Rightarrow> jsval
     \<Rightarrow> js_error + (bool \<times> trigger option)" where
  "detect_provider hmac secret req b =
     (let githubEvent = headers req ''X-GitHub-Event'';
          gitlabToken = headers req ''X-Gitlab-Token'';
          giteaEvent = headers req ''X-Gitea-Event''
      in if \<not> falsy githubEvent \<or> pathname req = ''/webhook/github''
         then (case verifyGitHubSignature hmac (rawBody req)
                      (headers req ''X-Hub-Signature-256'') secret of
                 Inl e \<Rightarrow> Inl e
               | Inr isValid \<Rightarrow>
                   (case parse_when (push_or_ref (githubEvent = Some ''push'') b)
                           parseGitHubPush b of
                      Inl e \<Rightarrow> Inl e
                    | Inr pushInfo \<Rightarrow> Inr (isValid, pushInfo)))
         else if \<not> falsy gitlabToken \<or> pathname req = ''/webhook/gitlab''
         then (let isValid = verifyGitLabToken gitlabToken secret
               in (case get_prop b ''object_kind'' of
                     Inl e \<Rightarrow> Inl e
                   | Inr kind \<Rightarrow>
                       (case parse_when (push_or_ref (kind = Str ''push'') b)
                               parseGitLabPush b of
                          Inl e \<Rightarrow> Inl e
                        | Inr pushInfo \<Rightarrow> Inr (isValid, pushInfo))))
         else if \<not> falsy giteaEvent \<or> pathname req = ''/webhook/gitea''
         then (case verifyGiteaSignature hmac (rawBody req)
                      (headers req ''X-Gitea-Signature'') secret of
                 Inl e \<Rightarrow> Inl e
               | Inr isValid \<Rightarrow>
                   (case parse_when (push_or_ref (giteaEvent = Some ''push'') b)
                           parseGiteaPush b of
                      Inl e \<Rightarrow> Inl e
                    | Inr pushInfo \<Rightarrow> Inr (isValid, pushInfo)))
         else (case parse_when (push_or_ref False b) parseGitHubPush b of
                 Inl e \<Rightarrow> Inl e
               | Inr pushInfo \<Rightarrow> Inr (True, pushInfo)))"

text \<open>The predicate of \<^verbatim>\<open>config.repos.find\<close>.\<close>

definition matches :: "trigger \<Rightarrow> repo_config \<Rightarrow> bool" where
  "matches pushInfo r =
     (if repo_branch r \<noteq> branch pushInfo then False
      else if Str (name r) = repository pushInfo then True
      else if Str (name r) = fullName pushInfo then True
      else False)"

text \<open>
  From the lookup of the repository on. The second component is the call
  \<^verbatim>\<open>onPush(matchingRepo, pushInfo)\<close>, which the handler does not await.
\<close>

definition dispatch :: "config \<Rightarrow> trigger \<Rightarrow> response \<times> (repo_config \<times> trigger) option" where
  "dispatch cfg pushInfo =
     (case List.find (matches pushInfo) (repos cfg) of
        None \<Rightarrow> (\<lparr> status = 200, body = MessageBody ''No matching repo configuration'' \<rparr>, None)
      | Some matchingRepo \<Rightarrow>
          (\<lparr> status = 200, body = TriggeredBody (name matchingRepo) (branch pushInfo) \<rparr>,
           Some (matchingRepo, pushInfo)))"

text \<open>
  The \<^verbatim>\<open>fetch\<close> handler of \<^verbatim>\<open>createWebhookServer\<close>. \<^verbatim>\<open>JSON.parse\<close> is the parameter
  \<open>json_parse\<close>, \<open>None\<close> where it throws.
\<close>

definition fetch ::
  "(string \<Rightarrow> string \<Rightarrow> 8 word list) \<Rightarrow> (string \<Rightarrow> jsval option) \<Rightarrow> config \<Rightarrow> request
     \<Rightarrow> js_error + (response \<times> (repo_config \<times> trigger) option)" where
  "fetch hmac json_parse cfg req =
     (if pathname req = ''/health'' \<and> req_method req = ''GET''
      then Inr (\<lparr> status = 200, body = HealthBody \<rparr>, None)
      else if req_method req = ''POST'' \<and> take 8 (pathname req) = ''/webhook''
      then (case json_parse (rawBody req) of
              None \<Rightarrow> Inr (\<lparr> status = 400, body = ErrorBody ''Invalid JSON'' \<rparr>, None)
            | Some b \<Rightarrow>
                (case detect_provider hmac (webhook_secret cfg) req b of
                   Inl e \<Rightarrow> Inl e
                 | Inr (isValid, pushInfo) \<Rightarrow>
                     if \<not> isValid
                     then Inr (\<lparr> status = 401, body = ErrorBody ''Invalid signature'' \<rparr>, None)
                     else (case pushInfo of
                             None \<Rightarrow>
                               Inr (\<lparr> status = 200,
                                       body = MessageBody ''Event ignored (not a push)'' \<rparr>, None)
                           | Some p \<Rightarrow> Inr (dispatch cfg p))))
      else Inr (\<lparr> status = 404, body = ErrorBody ''Not found'' \<rparr>, None))"

section \<open>The poll loop (polling.js)\<close>

record check_status =
  check_success :: bool
  hasUpdates :: bool
  check_error :: "string option"

datatype poll_event = CheckForUpdatesCall repo_config | OnUpdateCall repo_config

text \<open>
  What happens around one tick: the answer of \<^verbatim>\<open>checkForUpdates\<close> (a status, or an
  exception), and whether \<^verbatim>\<open>stop()\<close> ran while the tick was waiting for it.
\<close>

record poll_world =
  checkForUpdates_io :: "poll_event list \<Rightarrow> string \<Rightarrow> string \<Rightarrow> js_error + check_status"
  stop_during :: "poll_event list \<Rightarrow> bool"

text \<open>
  The \<^verbatim>\<open>for\<close> loop of \<^verbatim>\<open>poll\<close>, with the variable \<^verbatim>\<open>running\<close>. Everything in the body is
  inside \<^verbatim>\<open>try\<close>; the \<^verbatim>\<open>catch\<close> branch only logs.
\<close>

fun poll_loop ::
  "poll_world \<Rightarrow> bool \<Rightarrow> poll_event list \<Rightarrow> repo_config list \<Rightarrow> poll_event list \<times> bool" where
  "poll_loop pw running log [] = (log, running)"
| "poll_loop pw running log (r # rest) =
     (if \<not> running then (log, running)
      else (let log1 = log @ [CheckForUpdatesCall r];
                st = checkForUpdates_io pw log (path r) (repo_branch r);
                running' = (running \<and> \<not> stop_during pw log1);
                log2 = (case st of
                          Inr s \<Rightarrow> if check_success s \<and> hasUpdates s
                                   then log1 @ [OnUpdateCall r] else log1
                        | Inl e \<Rightarrow> log1)
            in poll_loop pw running' log2 rest))"

text \<open>
  One tick of \<^verbatim>\<open>poll\<close>: the events, \<^verbatim>\<open>running\<close> afterwards, and whether the next tick was
  scheduled.
\<close>

definition poll :: "poll_world \<Rightarrow> bool \<Rightarrow> repo_config list \<Rightarrow> poll_event list \<times> bool \<times> bool" where
  "poll pw running rs =
     (if \<not> running then ([], running, False)
      else (case poll_loop pw running [] rs of (log, running') \<Rightarrow> (log, running', running')))"

fun is_check :: "poll_event \<Rightarrow> bool" where
  "is_check (CheckForUpdatesCall r) = True"
| "is_check (OnUpdateCall r) = False"

section \<open>Deployments in flight (index.js)\<close>

text \<open>
  \<^verbatim>\<open>handleDeploy\<close> calls \<^verbatim>\<open>deploy\<close> directly, and both callers drop the promise
  (\<^verbatim>\<open>onPush(...).catch\<close>, \<^verbatim>\<open>onUpdate(...).catch\<close>). The state is the list of repository names
  whose \<^verbatim>\<open>deploy\<close> has been entered and has not settled yet.
\<close>

definition handleDeploy :: "string list \<Rightarrow> repo_config \<Rightarrow> string list" where
  "handleDeploy in_flight repoConfig = in_flight @ [name repoConfig]"

text \<open>A webhook request arrives: the handler runs, and calls \<^verbatim>\<open>onPush\<close> if it found a repository.\<close>

definition on_request ::
  "(string \<Rightarrow> string \<Rightarrow> 8 word list) \<Rightarrow> (string \<Rightarrow> jsval option) \<Rightarrow> config \<Rightarrow> string list
     \<Rightarrow> request \<Rightarrow> string list" where
  "on_request hmac json_parse cfg in_flight req =
     (case fetch hmac json_parse cfg req of
        Inr (resp, Some (matchingRepo, pushInfo)) \<Rightarrow> handleDeploy in_flight matchingRepo
      | _ \<Rightarrow> in_flight)"

text \<open>A poll tick runs: every \<^verbatim>\<open>onUpdate(repo)\<close> of the tick enters \<^verbatim>\<open>deploy\<close>.\<close>

fun on_poll_events :: "string list \<Rightarrow> poll_event list \<Rightarrow> string list" where
  "on_poll_events in_flight [] = in_flight"
| "on_poll_events in_flight (OnUpdateCall r # evs) = on_poll_events (handleDeploy in_flight r) evs"
| "on_poll_events in_flight (CheckForUpdatesCall r # evs) = on_poll_events in_flight evs"

definition on_poll_tick :: "poll_world \<Rightarrow> config \<Rightarrow> string list \<Rightarrow> string list" where
  "on_poll_tick pw cfg in_flight = on_poll_events in_flight (fst (poll pw True (repos cfg)))"

text \<open>A deployment settles: its promise resolves or rejects.\<close>

definition on_settled :: "string list \<Rightarrow> string \<Rightarrow> string list" where
  "on_settled in_flight repoName = remove1 repoName in_flight"

text \<open>
  What can happen while the service runs (both trigger modes on): a webhook request
  arrives, a poll tick runs, or a deployment of some repository settles.
\<close>

datatype runtime_event = Request request | PollTick poll_world | Settled string

fun runtime_step ::
  "(string \<Rightarrow> string \<Rightarrow> 8 word list) \<Rightarrow> (string \<Rightarrow> jsval option) \<Rightarrow> config \<Rightarrow> string list
     \<Rightarrow> runtime_event \<Rightarrow> string list" where
  "runtime_step hmac json_parse cfg in_flight (Request req) =
     on_request hmac json_parse cfg in_flight req"
| "runtime_step hmac json_parse cfg in_flight (PollTick pw) = on_poll_tick pw cfg in_flight"
| "runtime_step hmac json_parse cfg in_flight (Settled repoName) = on_settled in_flight repoName"

fun runtime ::
  "(string \<Rightarrow> string \<Rightarrow> 8 word list) \<Rightarrow> (string \<Rightarrow> jsval option) \<Rightarrow> config \<Rightarrow> string list
     \<Rightarrow> runtime_event list \<Rightarrow> string list" where
  "runtime hmac json_parse cfg in_flight [] = in_flight"
| "runtime hmac json_parse cfg in_flight (ev # evs) =
     runtime hmac json_parse cfg (runtime_step hmac json_parse cfg in_flight ev) evs"

section \<open>Vocabulary for the properties of the pipeline\<close>


















text \<open>Step 0 as far as it runs: the call it makes and the result it records.\<close>

definition step0_calls :: "repo_config \<Rightarrow> call list" where
  "step0_calls repoConfig =
     (case repoUrl repoConfig of
        Some u \<Rightarrow> if u \<noteq> [] then [EnsureRepoCall (path repoConfig) u (repo_branch repoConfig)] else []
      | None \<Rightarrow> [])"

definition step0_results :: "world \<Rightarrow> repo_config \<Rightarrow> ensure_result list" where
  "step0_results w repoConfig =
     (case repoUrl repoConfig of
        Some u \<Rightarrow> if u \<noteq> []
                  then [ensureRepo_io w [] (path repoConfig) u (repo_branch repoConfig)] else []
      | None \<Rightarrow> [])"


section \<open>Concrete inputs\<close>

text \<open>A stand-in for the keyed hash, for evaluating the handler on concrete requests.\<close>

definition sample_mac :: "string \<Rightarrow> string \<Rightarrow> 8 word list" where
  "sample_mac k m = [of_nat (length k), of_nat (length m)]"

text \<open>
  The hypothesis of the generic webhook path: a POST under \<^verbatim>\<open>/webhook\<close> with none of the
  provider headers and not on a provider path.
\<close>

definition is_generic_request :: "request \<Rightarrow> bool" where
  "is_generic_request req =
     (req_method req = ''POST'' \<and> take 8 (pathname req) = ''/webhook''
      \<and> falsy (headers req ''X-GitHub-Event'')
      \<and> falsy (headers req ''X-Gitlab-Token'')
      \<and> falsy (headers req ''X-Gitea-Event'')
      \<and> pathname req \<noteq> ''/webhook/github''
      \<and> pathname req \<noteq> ''/webhook/gitlab''
      \<and> pathname req \<noteq> ''/webhook/gitea'')"

definition sample_ts :: task_server_config where
  "sample_ts = \<lparr> url = ''http://localhost:3000'', apiKey = None \<rparr>"

definition sample_repo :: repo_config where
  "sample_repo =
     \<lparr> name = ''app'', path = ''/srv/app'', repo_branch = ''main'', repoUrl = None,
       dependencies = None, build = BuildArray [ItemString ''make'', ItemString ''make test''],
       restartScripts = Some [''web''], registerScripts = None, repo_taskServer = None \<rparr>"

definition sample_config :: config where
  "sample_config =
     \<lparr> webhook_secret = Some ''s3cret'', polling_interval = None, repos = [sample_repo],
       taskServer = sample_ts \<rparr>"

text \<open>A POST to \<^verbatim>\<open>/webhook\<close> without any header.\<close>

definition bare_post :: "string \<Rightarrow> request" where
  "bare_post raw =
     \<lparr> req_method = ''POST'', pathname = ''/webhook'', headers = (\<lambda>h. None), rawBody = raw \<rparr>"

text \<open>The body \<^verbatim>\<open>{"ref": "refs/heads/main", "repository": {"name": "app"}}\<close>.\<close>

definition push_body :: jsval where
  "push_body = Obj [(''ref'', Str ''refs/heads/main''), (''repository'', Obj [(''name'', Str ''app'')])]"

definition sample_os :: os_env where
  "sample_os = \<lparr> homedir = ''/home/ci'', path_join = (\<lambda>a b. a @ ''/'' @ b) \<rparr>"

text \<open>
  A world for \<^verbatim>\<open>sample_repo\<close>: the pull reports \<open>changed\<close>, \<^verbatim>\<open>stopScript\<close> succeeds or not,
  the build command \<open>bad\<close> fails, and every registration and every restart fails.
\<close>

definition sample_world :: "bool \<Rightarrow> bool \<Rightarrow> string \<Rightarrow> world" where
  "sample_world changed stop_ok bad =
     \<lparr> ensureRepo_io = (\<lambda>log p u b.
         \<lparr> ensure_success = True, ensure_cloned = False, ensure_error = None \<rparr>),
       gitPull_io = (\<lambda>log p b.
         Inr \<lparr> pull_success = True, pull_changed = changed, pull_message = ''pulled'',
               pull_files = [] \<rparr>),
       installDependencies_io = (\<lambda>log p d.
         \<lparr> install_success = True, install_skipped = False, install_error = None \<rparr>),
       stopScript_io = (\<lambda>log n ts.
         Inr \<lparr> api_success = stop_ok,
               api_error = (if stop_ok then None else Some ''not running'') \<rparr>),
       execAsync_io = (\<lambda>log c d. if c = bad then ExecFailed ''exit 2'' else ExecOk [] []),
       addScript_io = (\<lambda>log s ts. \<lparr> api_success = False, api_error = Some ''name taken'' \<rparr>),
       restartScript_io = (\<lambda>log n ts.
         Inr \<lparr> api_success = False, api_error = Some ''Unknown error'' \<rparr>) \<rparr>"

definition sample_pull :: "bool \<Rightarrow> pull_result" where
  "sample_pull changed =
     \<lparr> pull_success = True, pull_changed = changed, pull_message = ''pulled'', pull_files = [] \<rparr>"










text \<open>What it returns when the pull reports no change.\<close>

definition skipped_run :: dstate where
  "skipped_run =
     \<lparr> repo = ''app'', success = True, steps = [GitPullStep (sample_pull False)],
       error = None, skipped = True, deploy_trigger = None,
       calls = [GitPullCall ''/srv/app'' ''main''] \<rparr>"

text \<open>The \<^verbatim>\<open>onUpdate\<close> calls of a tick for the repository of a given name.\<close>

fun is_update_for :: "string \<Rightarrow> poll_event \<Rightarrow> bool" where
  "is_update_for n (OnUpdateCall r) = (name r = n)"
| "is_update_for n (CheckForUpdatesCall r) = False"

text \<open>
  The number of deployments of the repository \<open>n\<close> that an event triggers: one for a
  request that the handler answers by calling \<^verbatim>\<open>onPush\<close> for \<open>n\<close>, and one for each
  \<^verbatim>\<open>onUpdate\<close> call for \<open>n\<close> in a poll tick.
\<close>

fun triggers_for ::
  "(string \<Rightarrow> string \<Rightarrow> 8 word list) \<Rightarrow> (string \<Rightarrow> jsval option) \<Rightarrow> config \<Rightarrow> string
     \<Rightarrow> runtime_event \<Rightarrow> nat" where
  "triggers_for hmac json_parse cfg n (Request req) =
     (case fetch hmac json_parse cfg req of
        Inr (resp, Some (r, p)) \<Rightarrow> if name r = n then 1 else 0
      | _ \<Rightarrow> 0)"
| "triggers_for hmac json_parse cfg n (PollTick pw) =
     length (filter (is_update_for n) (fst (poll pw True (repos cfg))))"
| "triggers_for hmac json_parse cfg n (Settled m) = 0"

definition repo_at :: "string \<Rightarrow> string \<Rightarrow> repo_config" where
  "repo_at n p = sample_repo\<lparr> name := n, path := p \<rparr>"

text \<open>
  A world for the poll loop: the check of \<^verbatim>\<open>/srv/a\<close> throws, the check of \<^verbatim>\<open>/srv/b\<close>
  reports failure, every other check finds updates; \<^verbatim>\<open>stop()\<close> is never called.
\<close>

definition sample_poll_world :: poll_world where
  "sample_poll_world =
     \<lparr> checkForUpdates_io = (\<lambda>log p b.
         if p = ''/srv/a'' then Inl (Thrown ''Cannot use simple-git on a directory that does not exist'')
         else if p = ''/srv/b''
         then Inr \<lparr> check_success = False, hasUpdates = False, check_error = Some ''fetch failed'' \<rparr>
         else Inr \<lparr> check_success = True, hasUpdates = True, check_error = None \<rparr>),
       stop_during = (\<lambda>log. False) \<rparr>"

section \<open>Properties of signature verification\<close>

lemma hexdigit_inj: "m < 16 \<Longrightarrow> n < 16 \<Longrightarrow> hexdigit m = hexdigit n \<Longrightarrow> m = n"
  unfolding hexdigit_def
  by (subst (asm) nth_eq_iff_index_eq) simp_all

lemma hex_byte_inj: "hex_byte a = hex_byte b \<Longrightarrow> a = b"
proof -
  assume h: "hex_byte a = hex_byte b"
  have "unat a < 2 ^ LENGTH(8)" by (rule unsigned_less)
  then have la: "unat a < 256" by simp
  have "unat b < 2 ^ LENGTH(8)" by (rule unsigned_less)
  then have lb: "unat b < 256" by simp
  from h have d: "hexdigit (unat a div 16) = hexdigit (unat b div 16)"
    and m: "hexdigit (unat a mod 16) = hexdigit (unat b mod 16)"
    by (simp_all add: hex_byte_def)
  have "unat a div 16 = unat b div 16"
    using d la lb by (intro hexdigit_inj) simp_all
  moreover have "unat a mod 16 = unat b mod 16"
    using m by (intro hexdigit_inj) simp_all
  ultimately have "unat a = unat b"
    by (metis div_mult_mod_eq)
  then show "a = b" by (simp add: word_unat_eq_iff)
qed

lemma length_hex_byte: "length (hex_byte b) = 2"
  by (simp add: hex_byte_def)

lemma length_hex: "length (hex bs) = 2 * length bs"
  by (induction bs) (simp_all add: hex_def length_hex_byte)

lemma hex_inj: "hex xs = hex ys \<Longrightarrow> xs = ys"
proof (induction xs arbitrary: ys)
  case Nil
  then show ?case by (cases ys) (simp_all add: hex_def hex_byte_def)
next
  case (Cons x xs)
  show ?case
  proof (cases ys)
    case Nil
    with Cons.prems show ?thesis by (simp add: hex_def hex_byte_def)
  next
    case (Cons y ys')
    with Cons.prems have "hex_byte x @ hex xs = hex_byte y @ hex ys'"
      by (simp add: hex_def)
    then have "hex_byte x = hex_byte y" and "hex xs = hex ys'"
      by (simp_all add: length_hex_byte)
    then show ?thesis using Cons.IH Cons by (simp add: hex_byte_inj)
  qed
qed

lemma bit_mask_nonzero: "push_bit (i mod 8) (1 :: 8 word) \<noteq> 0"
  by (simp add: push_bit_eq_mult)

lemma xor_mask_neq: "m \<noteq> 0 \<Longrightarrow> (x :: 8 word) XOR m \<noteq> x"
  by (metis bit.xor_left_self bit.xor_self)

lemma flip_changes: "i < 8 * length bs \<Longrightarrow> flip_single_bit i bs \<noteq> bs"
proof
  assume a: "i < 8 * length bs" and e: "flip_single_bit i bs = bs"
  have k: "i div 8 < length bs" using a by simp
  have "flip_single_bit i bs ! (i div 8) = (bs ! (i div 8)) XOR push_bit (i mod 8) 1"
    using k by (simp add: flip_single_bit_def)
  with e have "(bs ! (i div 8)) XOR push_bit (i mod 8) 1 = bs ! (i div 8)" by simp
  then show False using xor_mask_neq [OF bit_mask_nonzero] by blast
qed

lemma length_flip: "length (flip_single_bit i bs) = length bs"
  by (simp add: flip_single_bit_def)

text \<open>
  C2. With the header \<^verbatim>\<open>sha256=\<close> followed by the hex digest of the payload under the
  secret, \<^verbatim>\<open>verifyGitHubSignature\<close> returns true. With a configured (non-empty) secret and
  the digest changed in any single bit, it returns false. With no secret configured
  (absent or empty) it returns true for every payload and every header value, present
  or not, and so does \<^verbatim>\<open>verifyGitLabToken\<close> for every token.
\<close>

theorem verify_signature_accepts_and_rejects:
  "verifyGitHubSignature hmac p (Some (''sha256='' @ hex (hmac s p))) (Some s) = Inr True
   \<and> (s \<noteq> [] \<and> i < 8 * length (hmac s p) \<longrightarrow>
        verifyGitHubSignature hmac p
          (Some (''sha256='' @ hex (flip_single_bit i (hmac s p)))) (Some s) = Inr False)
   \<and> (falsy secret \<longrightarrow>
        verifyGitHubSignature hmac p sg secret = Inr True \<and> verifyGitLabToken tok secret)"
proof (intro conjI impI)
  show "verifyGitHubSignature hmac p (Some (''sha256='' @ hex (hmac s p))) (Some s) = Inr True"
    by (simp add: verifyGitHubSignature_def timingSafeEqual_def)
next
  assume a: "s \<noteq> [] \<and> i < 8 * length (hmac s p)"
  then have "hex (flip_single_bit i (hmac s p)) \<noteq> hex (hmac s p)"
    using flip_changes hex_inj by blast
  then show "verifyGitHubSignature hmac p
               (Some (''sha256='' @ hex (flip_single_bit i (hmac s p)))) (Some s) = Inr False"
    using a by (simp add: verifyGitHubSignature_def timingSafeEqual_def length_hex length_flip)
next
  assume "falsy secret"
  then show "verifyGitHubSignature hmac p sg secret = Inr True"
    by (simp add: verifyGitHubSignature_def)
next
  assume "falsy secret"
  then show "verifyGitLabToken tok secret"
    by (simp add: verifyGitLabToken_def)
qed

theorem verify_signature_accepts_and_rejects_witness:
  "''key'' \<noteq> [] \<and> 9 < 8 * length (sample_mac ''key'' ''body'') \<and> falsy None
   \<and> verifyGitHubSignature sample_mac ''body'' (Some ''sha256=0304'') (Some ''key'') = Inr True
   \<and> verifyGitHubSignature sample_mac ''body'' (Some ''sha256=0306'') (Some ''key'') = Inr False
   \<and> verifyGitHubSignature sample_mac ''body'' (Some ''junk'') None = Inr True
   \<and> verifyGitLabToken (Some ''token'') None"
  using verify_signature_accepts_and_rejects
          [of sample_mac "''body''" "''key''" 9 None "Some ''junk''" "Some ''token''"]
  by (simp add: sample_mac_def hex_def hex_byte_def hexdigit_def flip_single_bit_def)

text \<open>
  C8. \<^verbatim>\<open>verifyGitHubSignature\<close> (and \<^verbatim>\<open>verifyGiteaSignature\<close>, the same function) returns a
  boolean for every payload, header value and secret; no exception leaves it. When the
  comparison is reached and \<^verbatim>\<open>timingSafeEqual\<close> throws, as it does on buffers of
  different length, the result is false.
\<close>

theorem verify_signature_never_throws:
  "(\<exists>b. verifyGitHubSignature hmac p signature secret = Inr b)
   \<and> (\<exists>b. verifyGiteaSignature hmac p signature secret = Inr b)
   \<and> (sg \<noteq> [] \<and> sec \<noteq> [] \<and> timingSafeEqual sg (''sha256='' @ hex (hmac sec p)) = Inl e \<longrightarrow>
        verifyGitHubSignature hmac p (Some sg) (Some sec) = Inr False)
   \<and> (length sg \<noteq> length (''sha256='' @ hex (hmac sec p)) \<longrightarrow>
        timingSafeEqual sg (''sha256='' @ hex (hmac sec p)) = Inl RangeError)"
proof -
  have total: "\<exists>b. verifyGitHubSignature hmac p signature secret = Inr b"
    by (cases signature; cases secret)
       (auto simp: verifyGitHubSignature_def Let_def split: sum.splits)
  have thrown: "sg \<noteq> [] \<and> sec \<noteq> [] \<and> timingSafeEqual sg (''sha256='' @ hex (hmac sec p)) = Inl e
      \<longrightarrow> verifyGitHubSignature hmac p (Some sg) (Some sec) = Inr False"
    by (simp add: verifyGitHubSignature_def)
  have range: "length sg \<noteq> length (''sha256='' @ hex (hmac sec p))
      \<longrightarrow> timingSafeEqual sg (''sha256='' @ hex (hmac sec p)) = Inl RangeError"
    by (simp add: timingSafeEqual_def)
  from total thrown range show ?thesis
    by (simp add: verifyGiteaSignature_def)
qed

theorem verify_signature_never_throws_witness:
  "''short'' \<noteq> [] \<and> ''key'' \<noteq> []
   \<and> length ''short'' \<noteq> length (''sha256='' @ hex (sample_mac ''key'' ''body''))
   \<and> timingSafeEqual ''short'' (''sha256='' @ hex (sample_mac ''key'' ''body'')) = Inl RangeError
   \<and> verifyGitHubSignature sample_mac ''body'' (Some ''short'') (Some ''key'') = Inr False"
  using verify_signature_never_throws
          [of sample_mac "''body''" "Some ''short''" "Some ''key''" "''short''" "''key''" RangeError]
  by (simp add: sample_mac_def hex_def hex_byte_def hexdigit_def)

section \<open>Properties of trigger normalisation\<close>

lemma replace_first_prefix: "pat \<noteq> [] \<Longrightarrow> replace_first pat [] (pat @ rest) = rest"
  by (cases pat) simp_all

lemma branch_of_branch_ref:
  "map_sum id branch (parseGitHubPush (Obj [(''ref'', Str (''refs/heads/'' @ b))])) = Inr b"
  using replace_first_prefix [of "''refs/heads/''" b]
  by (simp add: parseGitHubPush_def get_prop_def js_or_def js_replace_def)

text \<open>
  C6. The branch is computed by \<^verbatim>\<open>ref.replace('refs/heads/', '')\<close>, which removes the first
  occurrence of the text wherever it stands. For the tag ref
  \<^verbatim>\<open>refs/tags/refs/heads/v1\<close>, which does not start with the prefix, every parser yields
  the branch \<^verbatim>\<open>refs/tags/v1\<close> and not the unmodified ref.
\<close>

theorem branch_of_ref_inner_occurrence:
  "map_sum id branch (parseGitHubPush (Obj [(''ref'', Str ''refs/tags/refs/heads/v1'')]))
     = Inr ''refs/tags/v1''
   \<and> map_sum id branch (parseGitLabPush (Obj [(''ref'', Str ''refs/tags/refs/heads/v1'')]))
     = Inr ''refs/tags/v1''
   \<and> map_sum id branch (parseGiteaPush (Obj [(''ref'', Str ''refs/tags/refs/heads/v1'')]))
     = Inr ''refs/tags/v1''"
  by (simp add: parseGitHubPush_def parseGitLabPush_def parseGiteaPush_def
        get_prop_def js_or_def js_replace_def)

lemma missing_fields_resolve_to_null:
  "parseGitHubPush (Obj []) =
     Inr \<lparr> provider = ''github'', event = ''push'', branch = [], repository = Null,
           fullName = Null, commits = Num 0, pusher = Null, headCommit = Null \<rparr>"
  "parseGitLabPush (Obj []) =
     Inr \<lparr> provider = ''gitlab'', event = ''push'', branch = [], repository = Null,
           fullName = Null, commits = Num 0, pusher = Null, headCommit = Null \<rparr>"
  "parseGiteaPush (Obj []) =
     Inr \<lparr> provider = ''gitea'', event = ''push'', branch = [], repository = Null,
           fullName = Null, commits = Num 0, pusher = Null, headCommit = Null \<rparr>"
  by (simp_all add: parseGitHubPush_def parseGitLabPush_def parseGiteaPush_def
        get_prop_def opt_prop_def js_or_def js_replace_def)

lemma parse_total_on_string_ref:
  assumes "\<not> nullish b"
    and "\<not> truthy (own_prop b ''ref'') \<or> (\<exists>s. own_prop b ''ref'' = Str s)"
  shows "\<exists>t. parseGitHubPush b = Inr t"
    and "\<exists>t. parseGitLabPush b = Inr t"
    and "\<exists>t. parseGiteaPush b = Inr t"
  using assms
  by (auto simp: parseGitHubPush_def parseGitLabPush_def parseGiteaPush_def
        get_prop_def js_or_def js_replace_def)

text \<open>
  C7. Normalisation is not total. A body whose \<^verbatim>\<open>ref\<close> is a number passes
  \<^verbatim>\<open>body.ref || ''\<close> and reaches \<^verbatim>\<open>ref.replace\<close>, which is not a function: every parser
  throws a TypeError. The body \<^verbatim>\<open>null\<close> throws at \<^verbatim>\<open>body.ref\<close>. The handler does not catch
  either: a POST to \<^verbatim>\<open>/webhook\<close> with the body \<^verbatim>\<open>{"ref": 1}\<close> or \<^verbatim>\<open>null\<close> ends in the
  exception, not in a response.
\<close>

theorem normalisation_throws:
  "parseGitHubPush (Obj [(''ref'', Num 1)]) = Inl TypeError
   \<and> parseGitLabPush (Obj [(''ref'', Num 1)]) = Inl TypeError
   \<and> parseGiteaPush (Obj [(''ref'', Num 1)]) = Inl TypeError
   \<and> parseGitHubPush Null = Inl TypeError
   \<and> fetch sample_mac (\<lambda>raw. Some (Obj [(''ref'', Num 1)])) sample_config (bare_post ''{ref: 1}'')
       = Inl TypeError
   \<and> fetch sample_mac (\<lambda>raw. Some Null) sample_config (bare_post ''null'') = Inl TypeError"
  by (simp add: parseGitHubPush_def parseGitLabPush_def parseGiteaPush_def
        get_prop_def js_or_def js_replace_def fetch_def detect_provider_def
        parse_when_def push_or_ref_def bare_post_def)

lemma non_push_event_ignored:
  "fetch sample_mac (\<lambda>raw. Some (Obj [(''user_name'', Str ''ann'')])) sample_config
     (\<lparr> req_method = ''POST'', pathname = ''/webhook/gitlab'',
        headers = (\<lambda>h. if h = ''X-Gitlab-Token'' then Some ''s3cret'' else None),
        rawBody = ''{user_name: ann}'' \<rparr>)
   = Inr (\<lparr> status = 200, body = MessageBody ''Event ignored (not a push)'' \<rparr>, None)"
  by (simp add: fetch_def detect_provider_def parse_when_def push_or_ref_def get_prop_def
        verifyGitLabToken_def sample_config_def)

section \<open>Properties of the webhook handler\<close>

lemma detect_generic:
  "is_generic_request req \<Longrightarrow>
     detect_provider hmac secret req b =
       (case parse_when (push_or_ref False b) parseGitHubPush b of
          Inl e \<Rightarrow> Inl e
        | Inr pushInfo \<Rightarrow> Inr (True, pushInfo))"
  by (simp add: is_generic_request_def detect_provider_def)

lemma dispatch_secret: "dispatch (cfg\<lparr> webhook_secret := sec \<rparr>) p = dispatch cfg p"
  by (simp add: dispatch_def)

text \<open>
  C10. For a POST under \<^verbatim>\<open>/webhook\<close> without provider header and off the provider paths,
  the outcome of the handler does not depend on the configured secret, it is never the
  401 response, and a body whose \<^verbatim>\<open>ref\<close> is set (truthy) goes through
  \<^verbatim>\<open>parseGitHubPush\<close> and on to the repository lookup.
\<close>

theorem generic_webhook_skips_verification:
  "is_generic_request req \<longrightarrow>
     fetch hmac json_parse (cfg\<lparr> webhook_secret := sec \<rparr>) req = fetch hmac json_parse cfg req
     \<and> (\<forall>resp t. fetch hmac json_parse cfg req = Inr (resp, t) \<longrightarrow> status resp \<noteq> 401)
     \<and> (\<forall>b. json_parse (rawBody req) = Some b \<and> \<not> nullish b \<and> truthy (own_prop b ''ref'') \<longrightarrow>
           fetch hmac json_parse cfg req = map_sum id (dispatch cfg) (parseGitHubPush b))"
proof (intro impI conjI allI)
  assume g: "is_generic_request req"
  show "fetch hmac json_parse (cfg\<lparr> webhook_secret := sec \<rparr>) req = fetch hmac json_parse cfg req"
    by (simp add: fetch_def detect_generic [OF g] dispatch_secret
          split: option.splits sum.splits)
next
  fix resp t
  assume g: "is_generic_request req" and r: "fetch hmac json_parse cfg req = Inr (resp, t)"
  then show "status resp \<noteq> 401"
    by (auto simp: fetch_def detect_generic [OF g] dispatch_def is_generic_request_def
          split: option.splits sum.splits)
next
  fix b
  assume g: "is_generic_request req"
    and b: "json_parse (rawBody req) = Some b \<and> \<not> nullish b \<and> truthy (own_prop b ''ref'')"
  then show "fetch hmac json_parse cfg req = map_sum id (dispatch cfg) (parseGitHubPush b)"
    by (auto simp: fetch_def detect_generic [OF g] is_generic_request_def parse_when_def
          push_or_ref_def get_prop_def split: sum.splits)
qed

theorem generic_webhook_skips_verification_witness:
  "is_generic_request (bare_post ''{}'')
   \<and> \<not> nullish push_body \<and> truthy (own_prop push_body ''ref'')
   \<and> webhook_secret sample_config = Some ''s3cret''
   \<and> fetch sample_mac (\<lambda>raw. Some push_body) sample_config (bare_post ''{}'')
       = Inr (\<lparr> status = 200, body = TriggeredBody ''app'' ''main'' \<rparr>,
              Some (sample_repo,
                    \<lparr> provider = ''github'', event = ''push'', branch = ''main'',
                      repository = Str ''app'', fullName = Null, commits = Num 0,
                      pusher = Null, headCommit = Null \<rparr>))"
proof -
  have p: "parseGitHubPush push_body
             = Inr \<lparr> provider = ''github'', event = ''push'', branch = ''main'',
                     repository = Str ''app'', fullName = Null, commits = Num 0,
                     pusher = Null, headCommit = Null \<rparr>"
    by (simp add: parseGitHubPush_def push_body_def get_prop_def opt_prop_def js_or_def
          js_replace_def)
  have g: "is_generic_request (bare_post ''{}'')"
    by (simp add: is_generic_request_def bare_post_def)
  have b: "\<not> nullish push_body \<and> truthy (own_prop push_body ''ref'')"
    by (simp add: push_body_def)
  have d: "dispatch sample_config
             \<lparr> provider = ''github'', event = ''push'', branch = ''main'',
               repository = Str ''app'', fullName = Null, commits = Num 0,
               pusher = Null, headCommit = Null \<rparr>
           = (\<lparr> status = 200, body = TriggeredBody ''app'' ''main'' \<rparr>,
              Some (sample_repo,
                    \<lparr> provider = ''github'', event = ''push'', branch = ''main'',
                      repository = Str ''app'', fullName = Null, commits = Num 0,
                      pusher = Null, headCommit = Null \<rparr>))"
    by (simp add: dispatch_def sample_config_def matches_def sample_repo_def)
  show ?thesis
    using generic_webhook_skips_verification
            [where req = "bare_post ''{}''" and hmac = sample_mac
               and json_parse = "\<lambda>raw. Some push_body" and cfg = sample_config and sec = None]
          g b p d
    by (simp add: sample_config_def)
qed

section \<open>The loops of the pipeline\<close>
















section \<open>The shape of a deployment\<close>

lemma push_step_fields [simp]:
  "steps (push_step s st) = steps st @ [s]"
  "calls (push_step s st) = calls st"
  "success (push_step s st) = success st"
  "error (push_step s st) = error st"
  "skipped (push_step s st) = skipped st"
  by (simp_all add: push_step_def)

lemma push_call_fields [simp]:
  "steps (push_call c st) = steps st"
  "calls (push_call c st) = calls st @ [c]"
  "success (push_call c st) = success st"
  "error (push_call c st) = error st"
  "skipped (push_call c st) = skipped st"
  by (simp_all add: push_call_def)

lemma fail_with_fields [simp]:
  "steps (fail_with m st) = steps st"
  "calls (fail_with m st) = calls st"
  "success (fail_with m st) = False"
  "error (fail_with m st) = Some m"
  "skipped (fail_with m st) = skipped st"
  by (simp_all add: fail_with_def)























section \<open>Properties of the pipeline\<close>

text \<open>
  C3. When step 0 did not run or succeeded without cloning, and the pull succeeds and
  reports no change, \<^verbatim>\<open>deploy\<close> returns right after the pull: the result has
  \<^verbatim>\<open>skipped = true\<close> and \<^verbatim>\<open>success = true\<close>, its steps are the ensure-repo step (if any) and
  the git-pull step, and the only calls made are those of steps 0 and 1. No later
  step runs or records a result.
\<close>

theorem unchanged_pull_skips_rest:
  "list_all (\<lambda>r. ensure_success r \<and> \<not> ensure_cloned r) (step0_results w rc)
   \<and> gitPull_io w (step0_calls rc) (path rc) (repo_branch rc) = Inr pr
   \<and> pull_success pr \<and> \<not> pull_changed pr
   \<longrightarrow> (\<exists>st. deploy w os cfg rc trig = Inr st \<and> skipped st \<and> success st \<and> error st = None
          \<and> steps st = map EnsureRepoStep (step0_results w rc) @ [GitPullStep pr]
          \<and> calls st = step0_calls rc @ [GitPullCall (path rc) (repo_branch rc)])"
proof (cases "repoUrl rc")
  case None
  then show ?thesis
    by (simp add: deploy_def deploy_from_pull_def step0_calls_def step0_results_def
          wasCloned_def Let_def)
next
  case (Some u)
  then show ?thesis
    by (cases "u = []")
       (simp_all add: deploy_def deploy_from_pull_def step0_calls_def step0_results_def
          wasCloned_def Let_def)
qed

lemma skipped_run_eval:
  "deploy (sample_world False True []) sample_os sample_config sample_repo None = Inr skipped_run"
  by (simp add: deploy_def deploy_from_pull_def sample_world_def sample_repo_def
        skipped_run_def sample_pull_def wasCloned_def Let_def push_step_def push_call_def)

theorem unchanged_pull_skips_rest_witness:
  "list_all (\<lambda>r. ensure_success r \<and> \<not> ensure_cloned r)
     (step0_results (sample_world False True []) sample_repo)
   \<and> gitPull_io (sample_world False True []) (step0_calls sample_repo) (path sample_repo)
        (repo_branch sample_repo) = Inr (sample_pull False)
   \<and> pull_success (sample_pull False) \<and> \<not> pull_changed (sample_pull False)
   \<and> deploy (sample_world False True []) sample_os sample_config sample_repo None
        = Inr skipped_run
   \<and> skipped skipped_run \<and> success skipped_run
   \<and> steps skipped_run = [GitPullStep (sample_pull False)]
   \<and> calls skipped_run = [GitPullCall ''/srv/app'' ''main'']"
  using unchanged_pull_skips_rest
          [where w = "sample_world False True []" and rc = sample_repo and pr = "sample_pull False"
             and os = sample_os and cfg = sample_config and trig = None]
        skipped_run_eval
  by (simp add: step0_results_def step0_calls_def sample_repo_def sample_world_def
        sample_pull_def skipped_run_def)

subsection \<open>What decides the success flag\<close>



















subsection \<open>The build step\<close>










section \<open>Properties of the poll loop\<close>

lemma poll_loop_checks:
  "\<forall>l. \<not> stop_during pw l \<Longrightarrow>
     filter is_check (fst (poll_loop pw True log rs))
       = filter is_check log @ map CheckForUpdatesCall rs"
proof (induction rs arbitrary: log)
  case Nil
  show ?case by simp
next
  case (Cons r rs)
  show ?case
    using Cons.prems
    by (cases "checkForUpdates_io pw log (path r) (repo_branch r)")
       (simp_all add: Let_def Cons.IH [OF Cons.prems])
qed

text \<open>
  C9. In a tick during which \<^verbatim>\<open>stop()\<close> is not called, \<^verbatim>\<open>checkForUpdates\<close> is called for
  every configured repository, one after the other in the order of the list, whatever
  the checks answer: a thrown error or a \<^verbatim>\<open>{success: false}\<close> status of one check does
  not end the loop.
\<close>

theorem poll_checks_every_repo:
  "running \<and> (\<forall>l. \<not> stop_during pw l) \<longrightarrow>
     filter is_check (fst (poll pw running rs)) = map CheckForUpdatesCall rs"
proof (intro impI, elim conjE)
  assume r: running and s: "\<forall>l. \<not> stop_during pw l"
  have "fst (poll pw True rs) = fst (poll_loop pw True [] rs)"
    by (simp add: poll_def split: prod.splits)
  then show "filter is_check (fst (poll pw running rs)) = map CheckForUpdatesCall rs"
    using r poll_loop_checks [OF s, of "[]" rs] by simp
qed

lemma sample_poll_eval:
  "poll sample_poll_world True [repo_at ''a'' ''/srv/a'', repo_at ''b'' ''/srv/b'',
                               repo_at ''c'' ''/srv/c'']
     = ([CheckForUpdatesCall (repo_at ''a'' ''/srv/a''),
         CheckForUpdatesCall (repo_at ''b'' ''/srv/b''),
         CheckForUpdatesCall (repo_at ''c'' ''/srv/c''),
         OnUpdateCall (repo_at ''c'' ''/srv/c'')], True, True)"
  by (simp add: poll_def sample_poll_world_def repo_at_def Let_def)

theorem poll_checks_every_repo_witness:
  "True \<and> (\<forall>l. \<not> stop_during sample_poll_world l)
   \<and> checkForUpdates_io sample_poll_world [] ''/srv/a'' ''main''
       = Inl (Thrown ''Cannot use simple-git on a directory that does not exist'')
   \<and> filter is_check
       (fst (poll sample_poll_world True
               [repo_at ''a'' ''/srv/a'', repo_at ''b'' ''/srv/b'', repo_at ''c'' ''/srv/c'']))
       = [CheckForUpdatesCall (repo_at ''a'' ''/srv/a''),
          CheckForUpdatesCall (repo_at ''b'' ''/srv/b''),
          CheckForUpdatesCall (repo_at ''c'' ''/srv/c'')]"
  using poll_checks_every_repo
          [where running = True and pw = sample_poll_world
             and rs = "[repo_at ''a'' ''/srv/a'', repo_at ''b'' ''/srv/b'', repo_at ''c'' ''/srv/c'']"]
  by (simp add: sample_poll_world_def)

section \<open>Properties of the deployments in flight\<close>

lemma on_poll_events_count:
  "count_list (on_poll_events fl evs) n = count_list fl n + length (filter (is_update_for n) evs)"
proof (induction evs arbitrary: fl)
  case Nil
  show ?case by simp
next
  case (Cons e evs)
  show ?case by (cases e) (simp_all add: Cons.IH handleDeploy_def)
qed

lemma on_request_count:
  "count_list (on_request hmac json_parse cfg fl req) n
     = count_list fl n + triggers_for hmac json_parse cfg n (Request req)"
  by (auto simp: on_request_def handleDeploy_def split: sum.splits option.splits prod.splits)

lemma on_settled_other: "m \<noteq> n \<Longrightarrow> count_list (on_settled fl m) n = count_list fl n"
  unfolding on_settled_def by (induction fl) auto

lemma runtime_step_count:
  "ev \<noteq> Settled n \<Longrightarrow>
     count_list (runtime_step hmac json_parse cfg fl ev) n
       = count_list fl n + triggers_for hmac json_parse cfg n ev"
proof (cases ev)
  case (Request req)
  then show ?thesis using on_request_count by simp
next
  case (PollTick pw)
  then show ?thesis by (simp add: on_poll_tick_def on_poll_events_count)
next
  case (Settled m)
  assume "ev \<noteq> Settled n"
  with Settled have "m \<noteq> n" by simp
  with Settled show ?thesis by (simp add: on_settled_other)
qed

text \<open>
  C1, as the code has it. There is no lock and no queue: \<^verbatim>\<open>handleDeploy\<close> enters
  \<^verbatim>\<open>deploy\<close> for every trigger. Over any sequence of requests, poll ticks and
  settlements of other repositories, the deployments of a repository in flight grow by
  one for each request that the handler answers by calling \<^verbatim>\<open>onPush\<close> for it and for
  each \<^verbatim>\<open>onUpdate\<close> call for it in a poll tick, whatever is in flight already.
\<close>

theorem every_trigger_starts_a_deployment:
  "(\<forall>ev \<in> set evs. ev \<noteq> Settled n) \<longrightarrow>
     count_list (runtime hmac json_parse cfg fl evs) n
       = count_list fl n + sum_list (map (triggers_for hmac json_parse cfg n) evs)"
proof (induction evs arbitrary: fl)
  case Nil
  show ?case by simp
next
  case (Cons ev evs)
  show ?case
  proof
    assume a: "\<forall>e \<in> set (ev # evs). e \<noteq> Settled n"
    then have h: "ev \<noteq> Settled n" and t: "\<forall>e \<in> set evs. e \<noteq> Settled n" by simp_all
    have "count_list (runtime hmac json_parse cfg fl (ev # evs)) n
            = count_list (runtime_step hmac json_parse cfg fl ev) n
              + sum_list (map (triggers_for hmac json_parse cfg n) evs)"
      using Cons.IH [of "runtime_step hmac json_parse cfg fl ev"] t by simp
    also have "\<dots> = count_list fl n + triggers_for hmac json_parse cfg n ev
              + sum_list (map (triggers_for hmac json_parse cfg n) evs)"
      using runtime_step_count [OF h] by simp
    finally show "count_list (runtime hmac json_parse cfg fl (ev # evs)) n
            = count_list fl n + sum_list (map (triggers_for hmac json_parse cfg n) (ev # evs))"
      by simp
  qed
qed

lemma sample_push_eval:
  "fetch sample_mac (\<lambda>raw. Some push_body) sample_config (bare_post ''{}'')
     = Inr (\<lparr> status = 200, body = TriggeredBody ''app'' ''main'' \<rparr>,
            Some (sample_repo,
                  \<lparr> provider = ''github'', event = ''push'', branch = ''main'',
                    repository = Str ''app'', fullName = Null, commits = Num 0,
                    pusher = Null, headCommit = Null \<rparr>))"
  by (simp add: fetch_def detect_provider_def parse_when_def push_or_ref_def
        parseGitHubPush_def get_prop_def opt_prop_def js_or_def js_replace_def dispatch_def
        matches_def bare_post_def push_body_def sample_config_def sample_repo_def)

lemma sample_tick_eval:
  "fst (poll sample_poll_world True (repos sample_config))
     = [CheckForUpdatesCall sample_repo, OnUpdateCall sample_repo]"
  by (simp add: poll_def sample_poll_world_def sample_config_def sample_repo_def Let_def)

text \<open>
  C1 as stated fails: two pushes for the same repository, the second arriving before
  the first deployment has settled, leave two deployments of \<^verbatim>\<open>app\<close> in flight; so do
  a push and a poll tick that finds updates.
\<close>

theorem two_triggers_overlap:
  "count_list
     (runtime sample_mac (\<lambda>raw. Some push_body) sample_config []
        [Request (bare_post ''{}''), Request (bare_post ''{}'')]) ''app'' = 2
   \<and> count_list
       (runtime sample_mac (\<lambda>raw. Some push_body) sample_config []
          [Request (bare_post ''{}''), PollTick sample_poll_world]) ''app'' = 2"
  by (simp add: on_request_def on_poll_tick_def handleDeploy_def sample_push_eval
        sample_tick_eval)
     (simp add: sample_repo_def)

theorem every_trigger_starts_a_deployment_witness:
  "Request (bare_post ''{}'') \<noteq> Settled ''app'' \<and> PollTick sample_poll_world \<noteq> Settled ''app''
   \<and> sum_list (map (triggers_for sample_mac (\<lambda>raw. Some push_body) sample_config ''app'')
                 [Request (bare_post ''{}''), PollTick sample_poll_world]) = 2
   \<and> count_list
       (runtime sample_mac (\<lambda>raw. Some push_body) sample_config [''app'']
          [Request (bare_post ''{}''), PollTick sample_poll_world]) ''app'' = 3"
proof -
  have t: "sum_list (map (triggers_for sample_mac (\<lambda>raw. Some push_body) sample_config ''app'')
                 [Request (bare_post ''{}''), PollTick sample_poll_world]) = 2"
    by (simp add: sample_push_eval sample_tick_eval) (simp add: sample_repo_def)
  show ?thesis
    using every_trigger_starts_a_deployment
            [where evs = "[Request (bare_post ''{}''), PollTick sample_poll_world]"
               and n = "''app''" and hmac = sample_mac and json_parse = "\<lambda>raw. Some push_body"
               and cfg = sample_config and fl = "[''app'']"] t
    by simp
qed

end
